theory Spec2Isabelle
  imports Complex_Main
begin

section \<open>Python and pygame values\<close>

text \<open>
  The two source files, \<^verbatim>\<open>ui.py\<close> (class \<^verbatim>\<open>UI\<close>) and \<^verbatim>\<open>weapon.py\<close> (class
  \<^verbatim>\<open>Weapon\<close>), draw on a pygame surface and place a pygame rectangle. The embedding
  keeps what the code computes and in which order it draws:
  \<^item> a Python number (\<^verbatim>\<open>int\<close> or \<^verbatim>\<open>float\<close>) is the rational it stands for; the
    float that a division or a multiplication returns is left to the platform;
  \<^item> a \<^verbatim>\<open>pygame.Rect\<close> holds four integers, and the integer it stores for a number
    assigned to one of them is left to the platform as well;
  \<^item> the display surface is the list of the drawing calls made on it, oldest first;
  \<^item> an exception is a value \<open>Inl e\<close>; the drawing done before it stays on the surface.
\<close>

datatype py_error = ZeroDivisionError | IndexError | KeyError | ImageLoadError | TypeError

text \<open>
  What the code leaves to Python and to pygame: \<open>float_div a b\<close> is the float that
  \<^verbatim>\<open>a / b\<close> returns for a divisor other than 0, \<open>float_mul a b\<close> the float that
  \<^verbatim>\<open>a * b\<close> returns, and \<open>rect_int v\<close> the integer that a \<^verbatim>\<open>pygame.Rect\<close> stores when
  the number \<open>v\<close> is assigned to one of its attributes, \<open>None\<close> when pygame refuses
  \<open>v\<close> with \<^verbatim>\<open>TypeError\<close> (a number outside the range of a C \<^verbatim>\<open>int\<close>). How a float is
  rounded, and whether the stored integer is the nearest one or the truncated one, depends
  on the platform and on the version of pygame; the code itself does neither.
\<close>

record platform =
  float_div :: "rat \<Rightarrow> rat \<Rightarrow> rat"
  float_mul :: "rat \<Rightarrow> rat \<Rightarrow> rat"
  rect_int :: "rat \<Rightarrow> int option"

text \<open>Python's \<^verbatim>\<open>int(x)\<close> on a number: truncation towards zero.\<close>

definition py_int :: "rat \<Rightarrow> int" where
  "py_int q = (if 0 \<le> q then \<lfloor>q\<rfloor> else \<lceil>q\<rceil>)"

text \<open>Python's \<^verbatim>\<open>str\<close> of an integer: decimal digits, with a minus sign when negative.\<close>

fun str_nat :: "nat \<Rightarrow> string" where
  "str_nat n =
     (if n < 10 then [char_of (48 + n)]
      else str_nat (n div 10) @ [char_of (48 + n mod 10)])"

declare str_nat.simps [simp del]

definition str_int :: "int \<Rightarrow> string" where
  "str_int i = (if i < 0 then CHR ''-'' # str_nat (nat (- i)) else str_nat (nat i))"

text \<open>
  Python's \<^verbatim>\<open>xs[i]\<close> on a list: the length is added to a negative index, and an index
  that is then still negative, or not below the length, raises \<^verbatim>\<open>IndexError\<close>.
\<close>

definition py_getitem :: "'a list \<Rightarrow> int \<Rightarrow> py_error + 'a" where
  "py_getitem xs i =
     (let k = (if i < 0 then i + int (length xs) else i)
      in if k < 0 \<or> int (length xs) \<le> k then Inl IndexError else Inr (xs ! nat k))"

text \<open>Python's \<^verbatim>\<open>s.split('_')[0]\<close>: the part of \<open>s\<close> before its first underscore, all
  of \<open>s\<close> when it has none.\<close>

definition split_underscore_first :: "string \<Rightarrow> string" where
  "split_underscore_first s = takeWhile (\<lambda>c. c \<noteq> CHR ''_'') s"

subsection \<open>Rectangles\<close>

datatype rect = Rect (rect_x: int) (rect_y: int) (rect_w: int) (rect_h: int)

type_synonym point = "int \<times> int"

text \<open>
  The virtual attributes of a \<^verbatim>\<open>pygame.Rect\<close> that the code reads. A middle is half the
  size, as an integer, away from the edge.
\<close>

definition center :: "rect \<Rightarrow> point" where
  "center r = (rect_x r + rect_w r div 2, rect_y r + rect_h r div 2)"

definition midleft :: "rect \<Rightarrow> point" where
  "midleft r = (rect_x r, rect_y r + rect_h r div 2)"

definition midright :: "rect \<Rightarrow> point" where
  "midright r = (rect_x r + rect_w r, rect_y r + rect_h r div 2)"

definition midtop :: "rect \<Rightarrow> point" where
  "midtop r = (rect_x r + rect_w r div 2, rect_y r)"

definition midbottom :: "rect \<Rightarrow> point" where
  "midbottom r = (rect_x r + rect_w r div 2, rect_y r + rect_h r)"

definition bottomright :: "rect \<Rightarrow> point" where
  "bottomright r = (rect_x r + rect_w r, rect_y r + rect_h r)"

text \<open>Assigning to a virtual attribute moves the rectangle and keeps its size.\<close>

definition set_center :: "rect \<Rightarrow> point \<Rightarrow> rect" where
  "set_center r p = Rect (fst p - rect_w r div 2) (snd p - rect_h r div 2) (rect_w r) (rect_h r)"

definition set_midleft :: "rect \<Rightarrow> point \<Rightarrow> rect" where
  "set_midleft r p = Rect (fst p) (snd p - rect_h r div 2) (rect_w r) (rect_h r)"

definition set_midright :: "rect \<Rightarrow> point \<Rightarrow> rect" where
  "set_midright r p = Rect (fst p - rect_w r) (snd p - rect_h r div 2) (rect_w r) (rect_h r)"

definition set_midtop :: "rect \<Rightarrow> point \<Rightarrow> rect" where
  "set_midtop r p = Rect (fst p - rect_w r div 2) (snd p) (rect_w r) (rect_h r)"

definition set_midbottom :: "rect \<Rightarrow> point \<Rightarrow> rect" where
  "set_midbottom r p = Rect (fst p - rect_w r div 2) (snd p - rect_h r) (rect_w r) (rect_h r)"

definition set_bottomright :: "rect \<Rightarrow> point \<Rightarrow> rect" where
  "set_bottomright r p = Rect (fst p - rect_w r) (snd p - rect_h r) (rect_w r) (rect_h r)"

text \<open>\<^verbatim>\<open>rect.width = v\<close> on a copy of the rectangle.\<close>

definition set_width :: "platform \<Rightarrow> rect \<Rightarrow> rat \<Rightarrow> py_error + rect" where
  "set_width py r v =
     (case rect_int py v of
        None \<Rightarrow> Inl TypeError
      | Some k \<Rightarrow> Inr (Rect (rect_x r) (rect_y r) k (rect_h r)))"

text \<open>\<^verbatim>\<open>rect.inflate(dx, dy)\<close>: a new rectangle, grown around the same centre.\<close>

definition inflate :: "rect \<Rightarrow> int \<Rightarrow> int \<Rightarrow> rect" where
  "inflate r dx dy = Rect (rect_x r - dx div 2) (rect_y r - dy div 2) (rect_w r + dx) (rect_h r + dy)"

text \<open>The sum of a point and a \<^verbatim>\<open>pygame.math.Vector2\<close> with integer components.\<close>

definition vec_add :: "point \<Rightarrow> point \<Rightarrow> point" where
  "vec_add p v = (fst p + fst v, snd p + snd v)"

subsection \<open>Surfaces and drawing\<close>

text \<open>
  An image surface is known by where its pixels come from and by its size. Colours are
  opaque values of a type \<open>'c\<close>.
\<close>

datatype 'c pixels = FromFile string | FromText string 'c

datatype 'c surface = Surface (pixels: "'c pixels") (surf_w: int) (surf_h: int)

text \<open>\<^verbatim>\<open>surface.get_rect()\<close>: a rectangle of the surface's size at the origin.\<close>

definition get_rect :: "'c surface \<Rightarrow> rect" where
  "get_rect img = Rect 0 0 (surf_w img) (surf_h img)"

text \<open>
  A drawing call on the display surface: \<^verbatim>\<open>pygame.draw.rect(surface, color, rect, width)\<close>,
  where width 0 fills the rectangle and a positive width draws its outline, or
  \<^verbatim>\<open>surface.blit(source, dest)\<close>.
\<close>

datatype 'c draw = DrawRect 'c rect nat | Blit "'c surface" rect

section \<open>Configuration and objects\<close>

text \<open>
  The constants that \<^verbatim>\<open>ui.py\<close> imports from the module \<^verbatim>\<open>settings\<close> and uses in its
  drawing methods. Their values are not part of the sources, so they are a parameter.
\<close>

record 'c settings =
  UI_BACKGROUND_COLOR :: 'c
  UI_BORDER_COLOR :: 'c
  UI_BORDER_COLOR_ACTIVE :: 'c
  HEALTH_COLOR :: 'c
  ENERGY_COLOR :: 'c
  TEXT_COLOR :: 'c
  ITEM_BOX_SIZE :: int

text \<open>
  The attributes of a \<^verbatim>\<open>UI\<close> object that its methods read. \<open>display_size\<close> is what
  \<^verbatim>\<open>display_surface.get_size()\<close> returns, \<open>font_render_size\<close> the size of the surface that
  \<^verbatim>\<open>font.render\<close> returns for a text; then the two bar rectangles and the two icon lists.
  \<^verbatim>\<open>UI.__init__\<close> fills them from the settings and the loaded images; the drawing methods
  below take them as they find them.
\<close>

record 'c UI =
  display_size :: "int \<times> int"
  font_render_size :: "string \<Rightarrow> int \<times> int"
  health_bar_rect :: rect
  enery_bar_rect :: rect
  weapon_graphics :: "'c surface list"
  magic_graphics :: "'c surface list"

text \<open>
  The attributes of the player that the two classes read. \<open>exp_points\<close> is the attribute
  \<^verbatim>\<open>exp\<close>, renamed because \<open>exp\<close> is the exponential function here; \<^verbatim>\<open>stats\<close> is a
  dictionary from names to numbers.
\<close>

record player =
  health :: rat
  energy :: rat
  stats :: "string \<rightharpoonup> rat"
  weapon_index :: int
  magic_index :: int
  able_to_switch_weapon :: bool
  able_to_switch_magic :: bool
  exp_points :: rat
  status :: string
  weapon :: string
  rect :: rect

section \<open>The HUD renderer\<close>

definition show_bar ::
  "platform \<Rightarrow> 'c settings \<Rightarrow> rat \<Rightarrow> rat \<Rightarrow> rect \<Rightarrow> 'c \<Rightarrow> 'c draw list
     \<Rightarrow> (py_error + unit) \<times> 'c draw list" where
  "show_bar py cfg current_amount max_amount bg_rect color surf =
     (let surf1 = surf @ [DrawRect (UI_BACKGROUND_COLOR cfg) bg_rect 0]
      in if max_amount = 0 then (Inl ZeroDivisionError, surf1)
         else
           let ratio = float_div py current_amount max_amount;
               current_width = float_mul py (of_int (rect_w bg_rect)) ratio
           in case set_width py bg_rect current_width of
                Inl e \<Rightarrow> (Inl e, surf1)
              | Inr current_rect \<Rightarrow>
                  (let surf2 = surf1 @ [DrawRect color current_rect 0];
                       surf3 = surf2 @ [DrawRect (UI_BORDER_COLOR cfg) bg_rect 3]
                   in (Inr (), surf3)))"

definition show_exp :: "'c settings \<Rightarrow> 'c UI \<Rightarrow> rat \<Rightarrow> 'c draw list \<Rightarrow> 'c draw list" where
  "show_exp cfg ui exp_value surf =
     (let text = str_int (py_int exp_value);
          text_surf = Surface (FromText text (TEXT_COLOR cfg))
                        (fst (font_render_size ui text)) (snd (font_render_size ui text));
          x = fst (display_size ui) - 20;
          y = snd (display_size ui) - 20;
          text_rect = set_bottomright (get_rect text_surf) (x, y);
          surf1 = surf @ [DrawRect (UI_BACKGROUND_COLOR cfg) (inflate text_rect 10 10) 0];
          surf2 = surf1 @ [Blit text_surf text_rect];
          surf3 = surf2 @ [DrawRect (UI_BACKGROUND_COLOR cfg) (inflate text_rect 10 10) 3]
      in surf3)"

definition selection_box ::
  "'c settings \<Rightarrow> int \<Rightarrow> int \<Rightarrow> bool \<Rightarrow> 'c draw list \<Rightarrow> rect \<times> 'c draw list" where
  "selection_box cfg x y is_switching surf =
     (let bg_rect = Rect x y (ITEM_BOX_SIZE cfg) (ITEM_BOX_SIZE cfg);
          surf1 = surf @ [DrawRect (UI_BACKGROUND_COLOR cfg) bg_rect 0];
          surf2 = (if is_switching
                   then surf1 @ [DrawRect (UI_BORDER_COLOR_ACTIVE cfg) bg_rect 3]
                   else surf1 @ [DrawRect (UI_BORDER_COLOR cfg) bg_rect 3])
      in (bg_rect, surf2))"

definition weapon_overlay ::
  "'c settings \<Rightarrow> 'c UI \<Rightarrow> int \<Rightarrow> bool \<Rightarrow> 'c draw list \<Rightarrow> (py_error + unit) \<times> 'c draw list" where
  "weapon_overlay cfg ui weapon_idx is_switching surf =
     (case selection_box cfg 10 630 is_switching surf of
        (bg_rect, surf1) \<Rightarrow>
          (case py_getitem (weapon_graphics ui) weapon_idx of
             Inl e \<Rightarrow> (Inl e, surf1)
           | Inr weapon_img \<Rightarrow>
               (let weapon_rect = set_center (get_rect weapon_img) (center bg_rect)
                in (Inr (), surf1 @ [Blit weapon_img weapon_rect]))))"

definition magic_overlay ::
  "'c settings \<Rightarrow> 'c UI \<Rightarrow> int \<Rightarrow> bool \<Rightarrow> 'c draw list \<Rightarrow> (py_error + unit) \<times> 'c draw list" where
  "magic_overlay cfg ui magic_idx is_switching surf =
     (case selection_box cfg 80 620 is_switching surf of
        (bg_rect, surf1) \<Rightarrow>
          (case py_getitem (magic_graphics ui) magic_idx of
             Inl e \<Rightarrow> (Inl e, surf1)
           | Inr magic_img \<Rightarrow>
               (let magic_rect = set_center (get_rect magic_img) (center bg_rect)
                in (Inr (), surf1 @ [Blit magic_img magic_rect]))))"

text \<open>Python's \<^verbatim>\<open>d[k]\<close> on a dictionary.\<close>

definition py_lookup :: "('k \<rightharpoonup> 'v) \<Rightarrow> 'k \<Rightarrow> py_error + 'v" where
  "py_lookup d k = (case d k of None \<Rightarrow> Inl KeyError | Some v \<Rightarrow> Inr v)"

definition display ::
  "platform \<Rightarrow> 'c settings \<Rightarrow> 'c UI \<Rightarrow> player \<Rightarrow> 'c draw list
     \<Rightarrow> (py_error + unit) \<times> 'c draw list" where
  "display py cfg ui p surf =
     (case py_lookup (stats p) ''health'' of
        Inl e \<Rightarrow> (Inl e, surf)
      | Inr max_health \<Rightarrow>
     (case show_bar py cfg (health p) max_health (health_bar_rect ui) (HEALTH_COLOR cfg) surf of
        (Inl e, surf1) \<Rightarrow> (Inl e, surf1)
      | (Inr _, surf1) \<Rightarrow>
     (case py_lookup (stats p) ''energy'' of
        Inl e \<Rightarrow> (Inl e, surf1)
      | Inr max_energy \<Rightarrow>
     (case show_bar py cfg (energy p) max_energy (enery_bar_rect ui) (ENERGY_COLOR cfg) surf1 of
        (Inl e, surf2) \<Rightarrow> (Inl e, surf2)
      | (Inr _, surf2) \<Rightarrow>
     (case weapon_overlay cfg ui (weapon_index p) (\<not> able_to_switch_weapon p) surf2 of
        (Inl e, surf3) \<Rightarrow> (Inl e, surf3)
      | (Inr _, surf3) \<Rightarrow>
     (case magic_overlay cfg ui (magic_index p) (\<not> able_to_switch_magic p) surf3 of
        (Inl e, surf4) \<Rightarrow> (Inl e, surf4)
      | (Inr _, surf4) \<Rightarrow> (Inr (), show_exp cfg ui (exp_points p) surf4)))))))"

section \<open>The weapon sprite\<close>

text \<open>
  The attributes that \<^verbatim>\<open>Weapon.__init__\<close> assigns. \<open>sprite_rect\<close> is \<open>None\<close> while the
  constructor has not assigned \<^verbatim>\<open>self.rect\<close>.
\<close>

record 'c weapon_sprite =
  sprite_type :: string
  sprite_image :: "'c surface"
  sprite_rect :: "rect option"

text \<open>
  \<open>load\<close> stands for \<^verbatim>\<open>pygame.image.load(path).convert_alpha()\<close>: the surface of the
  file at a path, \<open>None\<close> when pygame cannot load it. The sprite groups given to the
  constructor only receive the new sprite and are left out.
\<close>

definition Weapon_init :: "(string \<Rightarrow> 'c surface option) \<Rightarrow> player \<Rightarrow> py_error + 'c weapon_sprite" where
  "Weapon_init load p =
     (let direction = split_underscore_first (status p);
          full_path = ''./graphics/weapons/'' @ weapon p @ ''/'' @ direction @ ''.png''
      in case load full_path of
           None \<Rightarrow> Inl ImageLoadError
         | Some img \<Rightarrow>
             (let self = \<lparr>sprite_type = ''weapon'', sprite_image = img, sprite_rect = None\<rparr>
              in if direction = ''right'' then
                   Inr (self\<lparr>sprite_rect :=
                     Some (set_midleft (get_rect img) (vec_add (midright (rect p)) (0, 16)))\<rparr>)
                 else if direction = ''left'' then
                   Inr (self\<lparr>sprite_rect :=
                     Some (set_midright (get_rect img) (vec_add (midleft (rect p)) (0, 16)))\<rparr>)
                 else if direction = ''up'' then
                   Inr (self\<lparr>sprite_rect :=
                     Some (set_midbottom (get_rect img) (vec_add (midtop (rect p)) (- 10, 0)))\<rparr>)
                 else if direction = ''down'' then
                   Inr (self\<lparr>sprite_rect :=
                     Some (set_midtop (get_rect img) (vec_add (midbottom (rect p)) (- 10, 0)))\<rparr>)
                 else
                   (let unused = set_center (get_rect img) (center (rect p))
                    in Inr self)))"

section \<open>Sample inputs\<close>

text \<open>
  Concrete values on which the theorems below are evaluated: a configuration (the
  module \<^verbatim>\<open>settings\<close> is not among the sources), a UI with four weapon icons and two
  magic icons on a 1280 by 720 display, an image loader under which every file exists,
  and a player.

  The sample platform divides and multiplies exactly and stores the nearest integer, a
  half going away from zero, as pygame 2.6.1 does, within the range of a 32-bit
  \<^verbatim>\<open>int\<close>. It is used below only on numbers whose quotient and product are binary
  fractions that a float holds exactly (such as 50 / 100, 45 / 60 and 1 / 32) and whose
  product is no half, so that every platform computes the values shown.
\<close>

definition sample_rect_int :: "rat \<Rightarrow> int option" where
  "sample_rect_int v =
     (let k = (if 0 \<le> v then \<lfloor>v + 1 / 2\<rfloor> else \<lceil>v - 1 / 2\<rceil>)
      in if - 2147483648 \<le> k \<and> k \<le> 2147483647 then Some k else None)"

definition sample_py :: platform where
  "sample_py =
     \<lparr>float_div = (\<lambda>a b. a / b), float_mul = (\<lambda>a b. a * b), rect_int = sample_rect_int\<rparr>"

definition sample_settings :: "string settings" where
  "sample_settings =
     \<lparr>UI_BACKGROUND_COLOR = ''#222222'', UI_BORDER_COLOR = ''#111111'',
      UI_BORDER_COLOR_ACTIVE = ''gold'', HEALTH_COLOR = ''red'', ENERGY_COLOR = ''blue'',
      TEXT_COLOR = ''#EEEEEE'', ITEM_BOX_SIZE = 80\<rparr>"

definition sample_ui :: "string UI" where
  "sample_ui =
     \<lparr>display_size = (1280, 720),
      font_render_size = (\<lambda>text. (12 * int (length text), 18)),
      health_bar_rect = Rect 10 10 200 20,
      enery_bar_rect = Rect 10 34 140 20,
      weapon_graphics =
        [Surface (FromFile ''sword.png'') 64 64, Surface (FromFile ''lance.png'') 64 64,
         Surface (FromFile ''axe.png'') 64 64, Surface (FromFile ''rapier.png'') 64 64],
      magic_graphics =
        [Surface (FromFile ''flame.png'') 64 64, Surface (FromFile ''heal.png'') 64 64]\<rparr>"

definition sample_load :: "string \<Rightarrow> string surface option" where
  "sample_load path = Some (Surface (FromFile path) 40 20)"

definition sample_player :: "string \<Rightarrow> rat \<Rightarrow> player" where
  "sample_player st max_health =
     \<lparr>health = 50, energy = 45,
      stats = map_of [(''health'', max_health), (''energy'', 60)],
      weapon_index = 2, magic_index = - 1,
      able_to_switch_weapon = True, able_to_switch_magic = False,
      exp_points = 507, status = st, weapon = ''sword'', rect = Rect 100 200 64 64\<rparr>"

lemmas sample_defs = sample_settings_def sample_ui_def sample_load_def sample_player_def

lemmas rect_defs = set_center_def get_rect_def center_def inflate_def
  set_bottomright_def

lemma sample_exp_text: "str_int (py_int 507) = ''507''"
  by code_simp

lemma rect_eqI:
  "rect_x r = a \<Longrightarrow> rect_y r = b \<Longrightarrow> rect_w r = c \<Longrightarrow> rect_h r = d \<Longrightarrow> r = Rect a b c d"
  by (cases r) simp

section \<open>The sample platform\<close>

lemma sample_rect_int_mono:
  assumes "u \<le> v" and "sample_rect_int u = Some j" and "sample_rect_int v = Some k"
  shows "j \<le> k"
proof -
  have j: "j = (if 0 \<le> u then \<lfloor>u + 1 / 2\<rfloor> else \<lceil>u - 1 / 2\<rceil>)"
    using assms(2) by (simp add: sample_rect_int_def Let_def split: if_splits)
  have k: "k = (if 0 \<le> v then \<lfloor>v + 1 / 2\<rfloor> else \<lceil>v - 1 / 2\<rceil>)"
    using assms(3) by (simp add: sample_rect_int_def Let_def split: if_splits)
  consider "0 \<le> u" | "u < 0" "v < 0" | "u < 0" "0 \<le> v" by linarith
  then show ?thesis
  proof cases
    case 1
    with assms(1) show ?thesis unfolding j k by (simp add: floor_mono)
  next
    case 2
    with assms(1) show ?thesis unfolding j k by (simp add: ceiling_mono)
  next
    case 3
    have "\<lceil>u - 1 / 2\<rceil> \<le> 0" using 3 by (simp add: ceiling_le_iff)
    moreover have "0 \<le> \<lfloor>v + 1 / 2\<rfloor>" using 3 by simp
    ultimately have "\<lceil>u - 1 / 2\<rceil> \<le> \<lfloor>v + 1 / 2\<rfloor>" by linarith
    then show ?thesis unfolding j k using 3 by simp
  qed
qed

lemma sample_rect_int_values:
  "sample_rect_int 100 = Some 100" "sample_rect_int 105 = Some 105"
  "sample_rect_int 300 = Some 300" "sample_rect_int 50 = Some 50"
  "sample_rect_int 150 = Some 150" "sample_rect_int (25 / 4) = Some 6"
  "sample_rect_int (105 / 4) = Some 26"
  by (simp_all add: sample_rect_int_def Let_def floor_eq_iff)

section \<open>Status bars\<close>

lemma show_bar_cases:
  "m \<noteq> 0 \<Longrightarrow> show_bar py cfg c m bg color surf =
     (case rect_int py (float_mul py (of_int (rect_w bg)) (float_div py c m)) of
        None \<Rightarrow> (Inl TypeError, surf @ [DrawRect (UI_BACKGROUND_COLOR cfg) bg 0])
      | Some k \<Rightarrow>
          (Inr (), surf @ [DrawRect (UI_BACKGROUND_COLOR cfg) bg 0,
             DrawRect color (Rect (rect_x bg) (rect_y bg) k (rect_h bg)) 0,
             DrawRect (UI_BORDER_COLOR cfg) bg 3]))"
  by (simp add: show_bar_def set_width_def Let_def split: option.splits)

lemma show_bar_zero:
  "show_bar py cfg c 0 bg color surf =
     (Inl ZeroDivisionError, surf @ [DrawRect (UI_BACKGROUND_COLOR cfg) bg 0])"
  by (simp add: show_bar_def)




text \<open>
  C3. \<open>show_bar\<close> raises \<^verbatim>\<open>ZeroDivisionError\<close> exactly when \<open>max\<close> is 0, after the
  background has been drawn. For every other \<open>max\<close> and every \<open>current\<close>, also one
  above \<open>max\<close> or below 0, the ratio goes as it is into the product that is assigned to
  the width of the fill: nothing clamps the ratio and nothing guards the division.
\<close>

theorem show_bar_zero_division:
  "(fst (show_bar py cfg c m bg color surf) = Inl ZeroDivisionError \<longleftrightarrow> m = 0)
   \<and> (m = 0 \<longrightarrow> show_bar py cfg c m bg color surf =
          (Inl ZeroDivisionError, surf @ [DrawRect (UI_BACKGROUND_COLOR cfg) bg 0]))
   \<and> (m \<noteq> 0 \<longrightarrow> show_bar py cfg c m bg color surf =
          (case rect_int py (float_mul py (of_int (rect_w bg)) (float_div py c m)) of
             None \<Rightarrow> (Inl TypeError, surf @ [DrawRect (UI_BACKGROUND_COLOR cfg) bg 0])
           | Some k \<Rightarrow>
               (Inr (), surf @ [DrawRect (UI_BACKGROUND_COLOR cfg) bg 0,
                  DrawRect color (Rect (rect_x bg) (rect_y bg) k (rect_h bg)) 0,
                  DrawRect (UI_BORDER_COLOR cfg) bg 3])))"
  by (cases "m = 0") (simp_all add: show_bar_cases show_bar_zero split: option.splits)

text \<open>
  A maximum of 0 raises after the background is drawn; \<open>current = 150\<close> on a maximum of
  100 gives a fill 300 wide on a bar 200 wide.
\<close>

theorem show_bar_zero_division_witness:
  "show_bar sample_py sample_settings 50 0 (Rect 10 10 200 20) ''red'' [] =
     (Inl ZeroDivisionError, [DrawRect ''#222222'' (Rect 10 10 200 20) 0])
   \<and> show_bar sample_py sample_settings 150 100 (Rect 10 10 200 20) ''red'' [] =
     (Inr (), [DrawRect ''#222222'' (Rect 10 10 200 20) 0,
               DrawRect ''red'' (Rect 10 10 300 20) 0,
               DrawRect ''#111111'' (Rect 10 10 200 20) 3])"
  using show_bar_zero_division [of sample_py sample_settings 50 0 "Rect 10 10 200 20" "''red''" "[]"]
    show_bar_zero_division [of sample_py sample_settings 150 100 "Rect 10 10 200 20" "''red''" "[]"]
  by (simp add: sample_settings_def sample_py_def sample_rect_int_values)

text \<open>
  C8. For a fixed \<open>max > 0\<close> and a bar rectangle, whose width is not negative, the width
  of the fill that \<open>show_bar\<close> draws does not decrease when \<open>current\<close> grows. The
  arithmetic is the platform's: its division by a positive number, its multiplication by
  a number that is not negative and the integer a rectangle stores are monotone, as
  correctly rounded float operations and both rounding and truncation are. \<open>k1\<close> and
  \<open>k2\<close> are the widths stored for the two products.
\<close>

theorem show_bar_fill_monotone:
  assumes "0 < m" and "0 \<le> rect_w bg" and "c1 \<le> c2"
    and div_mono: "\<And>a b d. 0 < d \<Longrightarrow> a \<le> b \<Longrightarrow> float_div py a d \<le> float_div py b d"
    and mul_mono: "\<And>w u v. 0 \<le> w \<Longrightarrow> u \<le> v \<Longrightarrow> float_mul py w u \<le> float_mul py w v"
    and int_mono: "\<And>u v j k. u \<le> v \<Longrightarrow> rect_int py u = Some j \<Longrightarrow> rect_int py v = Some k \<Longrightarrow> j \<le> k"
    and "rect_int py (float_mul py (of_int (rect_w bg)) (float_div py c1 m)) = Some k1"
    and "rect_int py (float_mul py (of_int (rect_w bg)) (float_div py c2 m)) = Some k2"
  shows "show_bar py cfg c1 m bg color surf =
        (Inr (), surf @ [DrawRect (UI_BACKGROUND_COLOR cfg) bg 0,
                         DrawRect color (Rect (rect_x bg) (rect_y bg) k1 (rect_h bg)) 0,
                         DrawRect (UI_BORDER_COLOR cfg) bg 3])
    \<and> show_bar py cfg c2 m bg color surf =
        (Inr (), surf @ [DrawRect (UI_BACKGROUND_COLOR cfg) bg 0,
                         DrawRect color (Rect (rect_x bg) (rect_y bg) k2 (rect_h bg)) 0,
                         DrawRect (UI_BORDER_COLOR cfg) bg 3])
    \<and> k1 \<le> k2"
proof -
  have "float_div py c1 m \<le> float_div py c2 m"
    using assms(1,3) by (rule div_mono)
  moreover have "(0::rat) \<le> of_int (rect_w bg)" using assms(2) by simp
  ultimately have "float_mul py (of_int (rect_w bg)) (float_div py c1 m)
      \<le> float_mul py (of_int (rect_w bg)) (float_div py c2 m)"
    by (intro mul_mono)
  then have "k1 \<le> k2" using assms(7,8) by (rule int_mono)
  moreover have "m \<noteq> 0" using assms(1) by simp
  ultimately show ?thesis using assms(7,8) by (simp add: show_bar_cases)
qed

text \<open>
  On a maximum of 100 and a bar 200 wide, \<open>current = 25\<close> fills 50 pixels and
  \<open>current = 75\<close> fills 150.
\<close>

theorem show_bar_fill_monotone_witness:
  "show_bar sample_py sample_settings 25 100 (Rect 10 10 200 20) ''red'' [] =
     (Inr (), [DrawRect ''#222222'' (Rect 10 10 200 20) 0,
               DrawRect ''red'' (Rect 10 10 50 20) 0,
               DrawRect ''#111111'' (Rect 10 10 200 20) 3])
   \<and> show_bar sample_py sample_settings 75 100 (Rect 10 10 200 20) ''red'' [] =
     (Inr (), [DrawRect ''#222222'' (Rect 10 10 200 20) 0,
               DrawRect ''red'' (Rect 10 10 150 20) 0,
               DrawRect ''#111111'' (Rect 10 10 200 20) 3])
   \<and> (50::int) \<le> 150"
proof -
  have d: "\<And>a b d. 0 < d \<Longrightarrow> a \<le> b \<Longrightarrow> float_div sample_py a d \<le> float_div sample_py b d"
    by (simp add: sample_py_def divide_right_mono)
  have t: "\<And>w u v. 0 \<le> w \<Longrightarrow> u \<le> v \<Longrightarrow> float_mul sample_py w u \<le> float_mul sample_py w v"
    by (simp add: sample_py_def mult_left_mono)
  have i: "\<And>u v j k. u \<le> v \<Longrightarrow> rect_int sample_py u = Some j \<Longrightarrow>
             rect_int sample_py v = Some k \<Longrightarrow> j \<le> k"
    using sample_rect_int_mono by (simp add: sample_py_def)
  have k1: "rect_int sample_py (float_mul sample_py (of_int (rect_w (Rect 10 10 200 20)))
              (float_div sample_py 25 100)) = Some 50"
    and k2: "rect_int sample_py (float_mul sample_py (of_int (rect_w (Rect 10 10 200 20)))
              (float_div sample_py 75 100)) = Some 150"
    by (simp_all add: sample_py_def sample_rect_int_values)
  have "(0::rat) < 100" and "0 \<le> rect_w (Rect 10 10 200 20)" and "(25::rat) \<le> 75"
    by simp_all
  from show_bar_fill_monotone [where py = sample_py and cfg = sample_settings
      and color = "''red''" and surf = "[]", OF this d t i k1 k2]
  show ?thesis by (simp add: sample_settings_def)
qed

section \<open>Selection boxes\<close>

text \<open>
  C6. For every \<open>x\<close> and \<open>y\<close>, \<open>selection_box\<close> returns the same rectangle whether the
  flag is set or not: the square of side \<^verbatim>\<open>ITEM_BOX_SIZE\<close> at \<open>(x, y)\<close>. Both calls fill
  that square with the background colour and then outline it 3 pixels wide; only the
  colour of the outline depends on the flag.
\<close>

theorem selection_box_same_geometry:
  "fst (selection_box cfg x y True surf) = Rect x y (ITEM_BOX_SIZE cfg) (ITEM_BOX_SIZE cfg)
   \<and> fst (selection_box cfg x y False surf) = Rect x y (ITEM_BOX_SIZE cfg) (ITEM_BOX_SIZE cfg)
   \<and> snd (selection_box cfg x y True surf) =
       surf @ [DrawRect (UI_BACKGROUND_COLOR cfg) (Rect x y (ITEM_BOX_SIZE cfg) (ITEM_BOX_SIZE cfg)) 0,
               DrawRect (UI_BORDER_COLOR_ACTIVE cfg) (Rect x y (ITEM_BOX_SIZE cfg) (ITEM_BOX_SIZE cfg)) 3]
   \<and> snd (selection_box cfg x y False surf) =
       surf @ [DrawRect (UI_BACKGROUND_COLOR cfg) (Rect x y (ITEM_BOX_SIZE cfg) (ITEM_BOX_SIZE cfg)) 0,
               DrawRect (UI_BORDER_COLOR cfg) (Rect x y (ITEM_BOX_SIZE cfg) (ITEM_BOX_SIZE cfg)) 3]"
  by (simp add: selection_box_def Let_def)

section \<open>Experience text\<close>

text \<open>
  C7. For every experience value, \<open>show_exp\<close> blits the text, rendered from the decimal
  digits of the value truncated to an integer, into a rectangle of the size of the
  rendered text whose bottom-right corner is \<open>(surface_width - 20, surface_height - 20)\<close>,
  whatever that size is.
\<close>

theorem show_exp_anchor:
  "\<exists>box text_surf text_rect.
      show_exp cfg ui e surf =
        surf @ [DrawRect (UI_BACKGROUND_COLOR cfg) box 0, Blit text_surf text_rect,
                DrawRect (UI_BACKGROUND_COLOR cfg) box 3]
    \<and> pixels text_surf = FromText (str_int (py_int e)) (TEXT_COLOR cfg)
    \<and> (surf_w text_surf, surf_h text_surf) = font_render_size ui (str_int (py_int e))
    \<and> rect_w text_rect = surf_w text_surf \<and> rect_h text_rect = surf_h text_surf
    \<and> bottomright text_rect = (fst (display_size ui) - 20, snd (display_size ui) - 20)"
  by (simp add: show_exp_def Let_def set_bottomright_def get_rect_def bottomright_def)

text \<open>
  C10. For every experience value, the rectangle that \<open>show_exp\<close> outlines 3 pixels wide
  after the blit is the one it filled before the blit (the text rectangle inflated by
  10), and both are drawn in \<^verbatim>\<open>UI_BACKGROUND_COLOR\<close>, whatever \<^verbatim>\<open>UI_BORDER_COLOR\<close> is.
\<close>

theorem show_exp_border_is_background:
  "\<exists>box text_surf text_rect.
      show_exp cfg ui e surf =
        surf @ [DrawRect (UI_BACKGROUND_COLOR cfg) box 0, Blit text_surf text_rect,
                DrawRect (UI_BACKGROUND_COLOR cfg) box 3]
    \<and> box = inflate text_rect 10 10"
  by (simp add: show_exp_def Let_def)

section \<open>Icon overlays\<close>

lemma py_getitem_range:
  "py_getitem xs i =
     (if i < - int (length xs) \<or> int (length xs) \<le> i then Inl IndexError
      else Inr (xs ! nat (if i < 0 then int (length xs) + i else i)))"
  by (auto simp: py_getitem_def Let_def add.commute)

lemma weapon_overlay_cases:
  "weapon_overlay cfg ui i sw surf =
     (case py_getitem (weapon_graphics ui) i of
        Inl e \<Rightarrow> (Inl e, snd (selection_box cfg 10 630 sw surf))
      | Inr img \<Rightarrow> (Inr (), snd (selection_box cfg 10 630 sw surf) @
          [Blit img (set_center (get_rect img)
             (center (Rect 10 630 (ITEM_BOX_SIZE cfg) (ITEM_BOX_SIZE cfg))))]))"
  by (simp add: weapon_overlay_def selection_box_def Let_def split: sum.splits)

lemma magic_overlay_cases:
  "magic_overlay cfg ui i sw surf =
     (case py_getitem (magic_graphics ui) i of
        Inl e \<Rightarrow> (Inl e, snd (selection_box cfg 80 620 sw surf))
      | Inr img \<Rightarrow> (Inr (), snd (selection_box cfg 80 620 sw surf) @
          [Blit img (set_center (get_rect img)
             (center (Rect 80 620 (ITEM_BOX_SIZE cfg) (ITEM_BOX_SIZE cfg))))]))"
  by (simp add: magic_overlay_def selection_box_def Let_def split: sum.splits)

text \<open>
  C9. With \<open>n\<close> weapon icons loaded, \<open>weapon_overlay\<close> called with an index in \<open>[-n, -1]\<close>
  does not raise: it draws the selection box and then blits the icon at position
  \<open>n + weapon_index\<close>, centred in the box. It raises, and what it raises is
  \<^verbatim>\<open>IndexError\<close>, exactly when the index is below \<open>-n\<close> or at least \<open>n\<close>. The same holds for
  \<open>magic_overlay\<close> and the magic icons.
\<close>

theorem overlay_negative_index_wraps:
  "(- int (length (weapon_graphics ui)) \<le> i \<and> i < 0 \<longrightarrow>
      weapon_overlay cfg ui i sw surf =
        (Inr (), snd (selection_box cfg 10 630 sw surf) @
           [Blit (weapon_graphics ui ! nat (int (length (weapon_graphics ui)) + i))
              (set_center (get_rect (weapon_graphics ui ! nat (int (length (weapon_graphics ui)) + i)))
                 (center (Rect 10 630 (ITEM_BOX_SIZE cfg) (ITEM_BOX_SIZE cfg))))]))
   \<and> ((\<exists>e. fst (weapon_overlay cfg ui i sw surf) = Inl e) \<longleftrightarrow>
        i < - int (length (weapon_graphics ui)) \<or> int (length (weapon_graphics ui)) \<le> i)
   \<and> (fst (weapon_overlay cfg ui i sw surf) = Inl IndexError \<longleftrightarrow>
        i < - int (length (weapon_graphics ui)) \<or> int (length (weapon_graphics ui)) \<le> i)
   \<and> (- int (length (magic_graphics ui)) \<le> j \<and> j < 0 \<longrightarrow>
      magic_overlay cfg ui j sw surf =
        (Inr (), snd (selection_box cfg 80 620 sw surf) @
           [Blit (magic_graphics ui ! nat (int (length (magic_graphics ui)) + j))
              (set_center (get_rect (magic_graphics ui ! nat (int (length (magic_graphics ui)) + j)))
                 (center (Rect 80 620 (ITEM_BOX_SIZE cfg) (ITEM_BOX_SIZE cfg))))]))
   \<and> ((\<exists>e. fst (magic_overlay cfg ui j sw surf) = Inl e) \<longleftrightarrow>
        j < - int (length (magic_graphics ui)) \<or> int (length (magic_graphics ui)) \<le> j)
   \<and> (fst (magic_overlay cfg ui j sw surf) = Inl IndexError \<longleftrightarrow>
        j < - int (length (magic_graphics ui)) \<or> int (length (magic_graphics ui)) \<le> j)"
  by (simp add: weapon_overlay_cases magic_overlay_cases py_getitem_range)

theorem overlay_negative_index_wraps_witness:
  "weapon_overlay sample_settings sample_ui (- 1) False [] =
     (Inr (), [DrawRect ''#222222'' (Rect 10 630 80 80) 0,
               DrawRect ''#111111'' (Rect 10 630 80 80) 3,
               Blit (Surface (FromFile ''rapier.png'') 64 64) (Rect 18 638 64 64)])
   \<and> magic_overlay sample_settings sample_ui (- 2) False [] =
     (Inr (), [DrawRect ''#222222'' (Rect 80 620 80 80) 0,
               DrawRect ''#111111'' (Rect 80 620 80 80) 3,
               Blit (Surface (FromFile ''flame.png'') 64 64) (Rect 88 628 64 64)])
   \<and> fst (weapon_overlay sample_settings sample_ui (- 5) False []) = Inl IndexError
   \<and> fst (magic_overlay sample_settings sample_ui 2 False []) = Inl IndexError"
  using overlay_negative_index_wraps [of sample_ui "- 1" sample_settings False "[]" "- 2"]
    overlay_negative_index_wraps [of sample_ui "- 5" sample_settings False "[]" 2]
  by (simp add: sample_defs rect_defs selection_box_def Let_def)

section \<open>The whole HUD\<close>

lemma show_exp_append: "show_exp cfg ui e surf = surf @ show_exp cfg ui e []"
  by (simp add: show_exp_def Let_def)

lemma selection_box_append:
  "snd (selection_box cfg x y sw surf) = surf @ snd (selection_box cfg x y sw [])"
  by (simp add: selection_box_def Let_def)

text \<open>
  C5, as the code has it. \<open>display\<close> runs five steps in this order, and a step that
  raises ends it: what was drawn before stays on the surface and no later step is
  performed.
  \<^item> The health bar from \<open>(health, stats['health'])\<close>: \<^verbatim>\<open>KeyError\<close> before any drawing
    when the entry is missing; \<^verbatim>\<open>ZeroDivisionError\<close> after the background when it is 0;
    \<^verbatim>\<open>TypeError\<close> after the background when the rectangle refuses the width.
  \<^item> The energy bar from \<open>(energy, stats['energy'])\<close>, in the same way.
  \<^item> The weapon box with the flag \<open>\<not> able_to_switch_weapon\<close>, then the weapon icon:
    \<^verbatim>\<open>IndexError\<close> after the box when the index selects no icon.
  \<^item> The magic box with the flag \<open>\<not> able_to_switch_magic\<close>, then the magic icon, in the
    same way.
  \<^item> The experience text.

  So \<open>display\<close> performs exactly the five steps, and returns normally, for the players
  whose two maxima exist and are not 0, whose two fill widths a rectangle stores (\<open>hw\<close>
  and \<open>ew\<close>) and whose two indices select an icon, and for no other player.
\<close>

theorem display_draw_sequence:
  "let hb = health_bar_rect ui;
       eb = enery_bar_rect ui;
       hbg = [DrawRect (UI_BACKGROUND_COLOR cfg) hb 0];
       ebg = [DrawRect (UI_BACKGROUND_COLOR cfg) eb 0];
       hbar = [DrawRect (UI_BACKGROUND_COLOR cfg) hb 0,
               DrawRect (HEALTH_COLOR cfg) (Rect (rect_x hb) (rect_y hb) hw (rect_h hb)) 0,
               DrawRect (UI_BORDER_COLOR cfg) hb 3];
       ebar = [DrawRect (UI_BACKGROUND_COLOR cfg) eb 0,
               DrawRect (ENERGY_COLOR cfg) (Rect (rect_x eb) (rect_y eb) ew (rect_h eb)) 0,
               DrawRect (UI_BORDER_COLOR cfg) eb 3];
       wbox = snd (selection_box cfg 10 630 (\<not> able_to_switch_weapon p) []);
       mbox = snd (selection_box cfg 80 620 (\<not> able_to_switch_magic p) []);
       wicon = [Blit weapon_img (set_center (get_rect weapon_img)
                  (center (Rect 10 630 (ITEM_BOX_SIZE cfg) (ITEM_BOX_SIZE cfg))))];
       micon = [Blit magic_img (set_center (get_rect magic_img)
                  (center (Rect 80 620 (ITEM_BOX_SIZE cfg) (ITEM_BOX_SIZE cfg))))];
       hwidth = rect_int py (float_mul py (of_int (rect_w hb)) (float_div py (health p) max_health));
       ewidth = rect_int py (float_mul py (of_int (rect_w eb)) (float_div py (energy p) max_energy));
       result = display py cfg ui p surf
   in (stats p ''health'' = None \<longrightarrow> result = (Inl KeyError, surf))
    \<and> (stats p ''health'' = Some max_health \<longrightarrow>
        (max_health = 0 \<longrightarrow> result = (Inl ZeroDivisionError, surf @ hbg))
      \<and> (max_health \<noteq> 0 \<longrightarrow>
        (hwidth = None \<longrightarrow> result = (Inl TypeError, surf @ hbg))
      \<and> (hwidth = Some hw \<longrightarrow>
        (stats p ''energy'' = None \<longrightarrow> result = (Inl KeyError, surf @ hbar))
      \<and> (stats p ''energy'' = Some max_energy \<longrightarrow>
        (max_energy = 0 \<longrightarrow> result = (Inl ZeroDivisionError, surf @ hbar @ ebg))
      \<and> (max_energy \<noteq> 0 \<longrightarrow>
        (ewidth = None \<longrightarrow> result = (Inl TypeError, surf @ hbar @ ebg))
      \<and> (ewidth = Some ew \<longrightarrow>
        (py_getitem (weapon_graphics ui) (weapon_index p) = Inl IndexError \<longrightarrow>
           result = (Inl IndexError, surf @ hbar @ ebar @ wbox))
      \<and> (py_getitem (weapon_graphics ui) (weapon_index p) = Inr weapon_img \<longrightarrow>
        (py_getitem (magic_graphics ui) (magic_index p) = Inl IndexError \<longrightarrow>
           result = (Inl IndexError, surf @ hbar @ ebar @ wbox @ wicon @ mbox))
      \<and> (py_getitem (magic_graphics ui) (magic_index p) = Inr magic_img \<longrightarrow>
           result = (Inr (), surf @ hbar @ ebar @ wbox @ wicon @ mbox @ micon
                       @ show_exp cfg ui (exp_points p) [])))))))))"
  unfolding Let_def
  by (simp add: display_def py_lookup_def show_bar_zero show_bar_cases
      weapon_overlay_cases magic_overlay_cases
      selection_box_append [of cfg _ _ _ "_ @ _"] show_exp_append [of cfg ui "exp_points p" "_ @ _"])

text \<open>
  A player with 50 of 100 health, 45 of 60 energy, the third of four weapons, the last of
  two magics, a magic switch under way and 507 experience points; and the same player with
  the weapon index 7, for whom the two bars and the weapon box are all that is drawn.
\<close>

theorem display_draw_sequence_witness:
  "display sample_py sample_settings sample_ui (sample_player ''down_idle'' 100) [] =
     (Inr (),
      [DrawRect ''#222222'' (Rect 10 10 200 20) 0,
       DrawRect ''red'' (Rect 10 10 100 20) 0,
       DrawRect ''#111111'' (Rect 10 10 200 20) 3,
       DrawRect ''#222222'' (Rect 10 34 140 20) 0,
       DrawRect ''blue'' (Rect 10 34 105 20) 0,
       DrawRect ''#111111'' (Rect 10 34 140 20) 3,
       DrawRect ''#222222'' (Rect 10 630 80 80) 0,
       DrawRect ''#111111'' (Rect 10 630 80 80) 3,
       Blit (Surface (FromFile ''axe.png'') 64 64) (Rect 18 638 64 64),
       DrawRect ''#222222'' (Rect 80 620 80 80) 0,
       DrawRect ''gold'' (Rect 80 620 80 80) 3,
       Blit (Surface (FromFile ''heal.png'') 64 64) (Rect 88 628 64 64),
       DrawRect ''#222222'' (Rect 1219 677 46 28) 0,
       Blit (Surface (FromText ''507'' ''#EEEEEE'') 36 18) (Rect 1224 682 36 18),
       DrawRect ''#222222'' (Rect 1219 677 46 28) 3])
   \<and> display sample_py sample_settings sample_ui
        (sample_player ''down_idle'' 100\<lparr>weapon_index := 7\<rparr>) [] =
     (Inl IndexError,
      [DrawRect ''#222222'' (Rect 10 10 200 20) 0,
       DrawRect ''red'' (Rect 10 10 100 20) 0,
       DrawRect ''#111111'' (Rect 10 10 200 20) 3,
       DrawRect ''#222222'' (Rect 10 34 140 20) 0,
       DrawRect ''blue'' (Rect 10 34 105 20) 0,
       DrawRect ''#111111'' (Rect 10 34 140 20) 3,
       DrawRect ''#222222'' (Rect 10 630 80 80) 0,
       DrawRect ''#111111'' (Rect 10 630 80 80) 3])"
proof -
  let ?p = "sample_player ''down_idle'' 100"
  let ?q = "sample_player ''down_idle'' 100\<lparr>weapon_index := 7\<rparr>"
  have x: "show_exp sample_settings sample_ui (exp_points ?p) [] =
      [DrawRect ''#222222'' (Rect 1219 677 46 28) 0,
       Blit (Surface (FromText ''507'' ''#EEEEEE'') 36 18) (Rect 1224 682 36 18),
       DrawRect ''#222222'' (Rect 1219 677 46 28) 3]"
    by (simp add: show_exp_def sample_defs rect_defs set_bottomright_def Let_def sample_exp_text)
  have w: "py_getitem (weapon_graphics sample_ui) (weapon_index ?p) =
             Inr (Surface (FromFile ''axe.png'') 64 64)"
    and m: "py_getitem (magic_graphics sample_ui) (magic_index ?p) =
             Inr (Surface (FromFile ''heal.png'') 64 64)"
    and w': "py_getitem (weapon_graphics sample_ui) (weapon_index ?q) = Inl IndexError"
    by (simp_all add: py_getitem_def sample_ui_def sample_player_def)
  have a: "display sample_py sample_settings sample_ui ?p [] = (Inr (),
      [DrawRect ''#222222'' (Rect 10 10 200 20) 0,
       DrawRect ''red'' (Rect 10 10 100 20) 0,
       DrawRect ''#111111'' (Rect 10 10 200 20) 3,
       DrawRect ''#222222'' (Rect 10 34 140 20) 0,
       DrawRect ''blue'' (Rect 10 34 105 20) 0,
       DrawRect ''#111111'' (Rect 10 34 140 20) 3,
       DrawRect ''#222222'' (Rect 10 630 80 80) 0,
       DrawRect ''#111111'' (Rect 10 630 80 80) 3,
       Blit (Surface (FromFile ''axe.png'') 64 64) (Rect 18 638 64 64),
       DrawRect ''#222222'' (Rect 80 620 80 80) 0,
       DrawRect ''gold'' (Rect 80 620 80 80) 3,
       Blit (Surface (FromFile ''heal.png'') 64 64) (Rect 88 628 64 64)]
      @ show_exp sample_settings sample_ui (exp_points ?p) [])"
    using display_draw_sequence [of sample_ui sample_settings 100 105 ?p
        "Surface (FromFile ''axe.png'') 64 64" "Surface (FromFile ''heal.png'') 64 64"
        sample_py 100 60 "[]"] w m
    unfolding Let_def
    by (simp add: sample_defs sample_py_def sample_rect_int_values rect_defs
        selection_box_def Let_def)
  have b: "display sample_py sample_settings sample_ui ?q [] = (Inl IndexError,
      [DrawRect ''#222222'' (Rect 10 10 200 20) 0,
       DrawRect ''red'' (Rect 10 10 100 20) 0,
       DrawRect ''#111111'' (Rect 10 10 200 20) 3,
       DrawRect ''#222222'' (Rect 10 34 140 20) 0,
       DrawRect ''blue'' (Rect 10 34 105 20) 0,
       DrawRect ''#111111'' (Rect 10 34 140 20) 3,
       DrawRect ''#222222'' (Rect 10 630 80 80) 0,
       DrawRect ''#111111'' (Rect 10 630 80 80) 3])"
    using display_draw_sequence [of sample_ui sample_settings 100 105 ?q
        "Surface (FromFile ''axe.png'') 64 64" "Surface (FromFile ''heal.png'') 64 64"
        sample_py 100 60 "[]"] w'
    unfolding Let_def
    by (simp add: sample_defs sample_py_def sample_rect_int_values rect_defs
        selection_box_def Let_def)
  show ?thesis unfolding a b x by simp
qed

text \<open>
  Not every player state gets the five steps: with \<open>stats['health'] = 0\<close> the first bar
  raises \<^verbatim>\<open>ZeroDivisionError\<close> once its background is drawn, and nothing else is drawn.
\<close>

theorem display_draw_sequence_counterexample:
  "display sample_py sample_settings sample_ui (sample_player ''down_idle'' 0) [] =
     (Inl ZeroDivisionError, [DrawRect ''#222222'' (Rect 10 10 200 20) 0])"
  by (simp add: display_def py_lookup_def show_bar_def sample_defs)

section \<open>Placement of the weapon sprite\<close>

lemma Weapon_init_loaded:
  "load (''./graphics/weapons/'' @ weapon p @ ''/'' @ split_underscore_first (status p) @ ''.png'') = Some img
   \<Longrightarrow> Weapon_init load p =
     (let d = split_underscore_first (status p);
          self = \<lparr>sprite_type = ''weapon'', sprite_image = img, sprite_rect = None\<rparr>
      in if d = ''right'' then
           Inr (self\<lparr>sprite_rect := Some (set_midleft (get_rect img) (vec_add (midright (rect p)) (0, 16)))\<rparr>)
         else if d = ''left'' then
           Inr (self\<lparr>sprite_rect := Some (set_midright (get_rect img) (vec_add (midleft (rect p)) (0, 16)))\<rparr>)
         else if d = ''up'' then
           Inr (self\<lparr>sprite_rect := Some (set_midbottom (get_rect img) (vec_add (midtop (rect p)) (- 10, 0)))\<rparr>)
         else if d = ''down'' then
           Inr (self\<lparr>sprite_rect := Some (set_midtop (get_rect img) (vec_add (midbottom (rect p)) (- 10, 0)))\<rparr>)
         else Inr self)"
  by (simp add: Weapon_init_def Let_def)

lemma anchor_roundtrip:
  "midleft (set_midleft r q) = q" "midright (set_midright r q) = q"
  "midtop (set_midtop r q) = q" "midbottom (set_midbottom r q) = q"
  by (simp_all add: midleft_def set_midleft_def midright_def set_midright_def
      midtop_def set_midtop_def midbottom_def set_midbottom_def)

lemma anchor_size:
  "rect_w (set_midleft r q) = rect_w r" "rect_h (set_midleft r q) = rect_h r"
  "rect_w (set_midright r q) = rect_w r" "rect_h (set_midright r q) = rect_h r"
  "rect_w (set_midtop r q) = rect_w r" "rect_h (set_midtop r q) = rect_h r"
  "rect_w (set_midbottom r q) = rect_w r" "rect_h (set_midbottom r q) = rect_h r"
  by (simp_all add: set_midleft_def set_midright_def set_midtop_def set_midbottom_def)

text \<open>
  C2. When the weapon image loads, the constructor returns a sprite with that image and a
  rectangle of the image's size, anchored by the direction, the part of the player's status
  before the first underscore: for \<open>right\<close> the rectangle's midleft is the player's midright
  plus \<open>(0, 16)\<close>; for \<open>left\<close> its midright is the player's midleft plus \<open>(0, 16)\<close>; for
  \<open>up\<close> its midbottom is the player's midtop plus \<open>(-10, 0)\<close>; for \<open>down\<close> its midtop is the
  player's midbottom plus \<open>(-10, 0)\<close>.
\<close>

theorem weapon_rect_direction_table:
  assumes "load (''./graphics/weapons/'' @ weapon p @ ''/'' @
                 split_underscore_first (status p) @ ''.png'') = Some img"
  shows "(split_underscore_first (status p) = ''right'' \<longrightarrow>
            (\<exists>r. Weapon_init load p =
                   Inr \<lparr>sprite_type = ''weapon'', sprite_image = img, sprite_rect = Some r\<rparr>
               \<and> rect_w r = surf_w img \<and> rect_h r = surf_h img
               \<and> midleft r = vec_add (midright (rect p)) (0, 16)))
       \<and> (split_underscore_first (status p) = ''left'' \<longrightarrow>
            (\<exists>r. Weapon_init load p =
                   Inr \<lparr>sprite_type = ''weapon'', sprite_image = img, sprite_rect = Some r\<rparr>
               \<and> rect_w r = surf_w img \<and> rect_h r = surf_h img
               \<and> midright r = vec_add (midleft (rect p)) (0, 16)))
       \<and> (split_underscore_first (status p) = ''up'' \<longrightarrow>
            (\<exists>r. Weapon_init load p =
                   Inr \<lparr>sprite_type = ''weapon'', sprite_image = img, sprite_rect = Some r\<rparr>
               \<and> rect_w r = surf_w img \<and> rect_h r = surf_h img
               \<and> midbottom r = vec_add (midtop (rect p)) (- 10, 0)))
       \<and> (split_underscore_first (status p) = ''down'' \<longrightarrow>
            (\<exists>r. Weapon_init load p =
                   Inr \<lparr>sprite_type = ''weapon'', sprite_image = img, sprite_rect = Some r\<rparr>
               \<and> rect_w r = surf_w img \<and> rect_h r = surf_h img
               \<and> midtop r = vec_add (midbottom (rect p)) (- 10, 0)))"
  by (simp add: Weapon_init_loaded [of load p img, OF assms] anchor_roundtrip anchor_size get_rect_def)

theorem weapon_rect_direction_table_witness:
  "Weapon_init sample_load (sample_player ''right_idle'' 100) =
     Inr \<lparr>sprite_type = ''weapon'',
          sprite_image = Surface (FromFile ''./graphics/weapons/sword/right.png'') 40 20,
          sprite_rect = Some (Rect 164 238 40 20)\<rparr>
   \<and> midleft (Rect 164 238 40 20) = vec_add (midright (Rect 100 200 64 64)) (0, 16)
   \<and> Weapon_init sample_load (sample_player ''up_attack'' 100) =
     Inr \<lparr>sprite_type = ''weapon'',
          sprite_image = Surface (FromFile ''./graphics/weapons/sword/up.png'') 40 20,
          sprite_rect = Some (Rect 102 180 40 20)\<rparr>
   \<and> midbottom (Rect 102 180 40 20) = vec_add (midtop (Rect 100 200 64 64)) (- 10, 0)"
proof -
  have r: "split_underscore_first (status (sample_player ''right_idle'' 100)) = ''right''"
    and u: "split_underscore_first (status (sample_player ''up_attack'' 100)) = ''up''"
    by (simp_all add: split_underscore_first_def sample_player_def)
  have lr: "sample_load (''./graphics/weapons/'' @ weapon (sample_player ''right_idle'' 100) @ ''/'' @
              split_underscore_first (status (sample_player ''right_idle'' 100)) @ ''.png'') =
            Some (Surface (FromFile ''./graphics/weapons/sword/right.png'') 40 20)"
    and lu: "sample_load (''./graphics/weapons/'' @ weapon (sample_player ''up_attack'' 100) @ ''/'' @
              split_underscore_first (status (sample_player ''up_attack'' 100)) @ ''.png'') =
            Some (Surface (FromFile ''./graphics/weapons/sword/up.png'') 40 20)"
    unfolding r u by (simp_all add: sample_load_def sample_player_def)
  show ?thesis
    using weapon_rect_direction_table [of sample_load "sample_player ''right_idle'' 100"
        "Surface (FromFile ''./graphics/weapons/sword/right.png'') 40 20", OF lr]
      weapon_rect_direction_table [of sample_load "sample_player ''up_attack'' 100"
        "Surface (FromFile ''./graphics/weapons/sword/up.png'') 40 20", OF lu] r u
    by (auto simp: sample_player_def midleft_def midright_def midtop_def midbottom_def vec_add_def
        intro: rect_eqI)
qed

text \<open>
  C4. When the weapon image loads and the direction is none of \<open>right\<close>, \<open>left\<close>, \<open>up\<close>
  and \<open>down\<close>, the constructor returns a sprite whose \<^verbatim>\<open>rect\<close> was never assigned. The
  centred rectangle it computes from the player's rectangle is dropped: another player
  rectangle gives the same sprite.
\<close>

theorem weapon_rect_unassigned_otherwise:
  assumes "load (''./graphics/weapons/'' @ weapon p @ ''/'' @
                 split_underscore_first (status p) @ ''.png'') = Some img"
    and "split_underscore_first (status p) \<notin> {''right'', ''left'', ''up'', ''down''}"
  shows "Weapon_init load p =
           Inr \<lparr>sprite_type = ''weapon'', sprite_image = img, sprite_rect = None\<rparr>
         \<and> Weapon_init load (p\<lparr>rect := r'\<rparr>) = Weapon_init load p"
proof -
  have "load (''./graphics/weapons/'' @ weapon (p\<lparr>rect := r'\<rparr>) @ ''/'' @
                 split_underscore_first (status (p\<lparr>rect := r'\<rparr>)) @ ''.png'') = Some img"
    using assms(1) by simp
  from Weapon_init_loaded [of load "p\<lparr>rect := r'\<rparr>" img, OF this]
    Weapon_init_loaded [of load p img, OF assms(1)] assms(2)
  show ?thesis by simp
qed

theorem weapon_rect_unassigned_otherwise_witness:
  "Weapon_init sample_load (sample_player ''idle'' 100) =
     Inr \<lparr>sprite_type = ''weapon'',
          sprite_image = Surface (FromFile ''./graphics/weapons/sword/idle.png'') 40 20,
          sprite_rect = None\<rparr>
   \<and> Weapon_init sample_load (sample_player ''idle'' 100\<lparr>rect := Rect 0 0 1 1\<rparr>) =
     Weapon_init sample_load (sample_player ''idle'' 100)"
proof -
  have d: "split_underscore_first (status (sample_player ''idle'' 100)) = ''idle''"
    by (simp add: split_underscore_first_def sample_player_def)
  have l: "sample_load (''./graphics/weapons/'' @ weapon (sample_player ''idle'' 100) @ ''/'' @
              split_underscore_first (status (sample_player ''idle'' 100)) @ ''.png'') =
            Some (Surface (FromFile ''./graphics/weapons/sword/idle.png'') 40 20)"
    unfolding d by (simp add: sample_load_def sample_player_def)
  have n: "split_underscore_first (status (sample_player ''idle'' 100)) \<notin>
             {''right'', ''left'', ''up'', ''down''}"
    unfolding d by simp
  show ?thesis
    using weapon_rect_unassigned_otherwise [of sample_load "sample_player ''idle'' 100"
        "Surface (FromFile ''./graphics/weapons/sword/idle.png'') 40 20" "Rect 0 0 1 1", OF l n]
    by simp
qed

end
